theory Spec2Isabelle
  imports Complex_Main
begin

section \<open>The callback external field of HPMC (hoomd/hpmc/ExternalCallback.h)\<close>

text \<open>
  The class \<^verbatim>\<open>ExternalCallback<Shape>\<close> scores a configuration by
  handing a snapshot of it to a Python callable.  The embedding follows the header
  method by method.

  \<^item> A \<^verbatim>\<open>Scalar\<close> is a finite number, one of the two infinities or NaN.  On finite
    numbers the arithmetic is that of the reals (no rounding, no overflow, one zero); on
    the other three values it is that of IEEE 754.
  \<^item> \<^verbatim>\<open>unsigned int\<close> tags and indices are natural numbers; the only arithmetic on
    them is the loop counter, which stays below \<^verbatim>\<open>N\<close>.
  \<^item> \<^verbatim>\<open>vec3<Scalar>\<close>, \<^verbatim>\<open>quat<Scalar>\<close>, \<^verbatim>\<open>Scalar4\<close> and \<^verbatim>\<open>BoxDim\<close> are
    declared outside this header; they are the type parameters \<open>'p\<close>, \<open>'q\<close>, \<open>'s\<close> and
    \<open>'b\<close>, and the two conversions from \<^verbatim>\<open>Scalar4\<close> are function parameters.
  \<^item> Every way in which a method can end without a result is a value of \<open>fault\<close>.
\<close>

subsection \<open>Scalars\<close>

datatype Scalar = Finite real | PosInf | NegInf | NaN

text \<open>Unary minus.\<close>

fun neg_Scalar :: "Scalar \<Rightarrow> Scalar" where
  "neg_Scalar (Finite x) = Finite (- x)"
| "neg_Scalar PosInf = NegInf"
| "neg_Scalar NegInf = PosInf"
| "neg_Scalar NaN = NaN"

text \<open>Addition: NaN is absorbing, and the sum of the two infinities is NaN.\<close>

fun add_Scalar :: "Scalar \<Rightarrow> Scalar \<Rightarrow> Scalar" where
  "add_Scalar (Finite x) (Finite y) = Finite (x + y)"
| "add_Scalar NaN b = NaN"
| "add_Scalar a NaN = NaN"
| "add_Scalar PosInf NegInf = NaN"
| "add_Scalar NegInf PosInf = NaN"
| "add_Scalar PosInf b = PosInf"
| "add_Scalar a PosInf = PosInf"
| "add_Scalar NegInf b = NegInf"
| "add_Scalar a NegInf = NegInf"

text \<open>\<^verbatim>\<open>exp\<close>.\<close>

fun exp_Scalar :: "Scalar \<Rightarrow> Scalar" where
  "exp_Scalar (Finite x) = Finite (exp x)"
| "exp_Scalar PosInf = PosInf"
| "exp_Scalar NegInf = Finite 0"
| "exp_Scalar NaN = NaN"

text \<open>The comparison \<^verbatim>\<open><\<close>: false whenever an operand is NaN.\<close>

fun less_Scalar :: "Scalar \<Rightarrow> Scalar \<Rightarrow> bool" where
  "less_Scalar (Finite x) (Finite y) = (x < y)"
| "less_Scalar (Finite x) PosInf = True"
| "less_Scalar NegInf (Finite y) = True"
| "less_Scalar NegInf PosInf = True"
| "less_Scalar a b = False"

subsection \<open>Faults and builds\<close>

text \<open>
  \<open>Undefined\<close> is not a check of the code: it marks an execution to which the language
  gives no meaning, an unchecked \<^verbatim>\<open>operator[]\<close> outside its array.  The theorems
  below do not rest on it: their hypotheses keep every access inside its array.
\<close>

datatype fault =
    AssertionFailure  \<comment> \<open>an \<^verbatim>\<open>assert\<close> of the header aborts\<close>
  | Undefined         \<comment> \<open>an unchecked access outside its array\<close>
  | CastError         \<comment> \<open>\<^verbatim>\<open>pybind11::cast<Scalar>\<close> refuses the object\<close>

text \<open>
  How the header is compiled.  In a \<open>Debug\<close> build \<^verbatim>\<open>assert\<close> is checked.  With
  \<^verbatim>\<open>NDEBUG\<close> defined \<^verbatim>\<open>assert\<close> expands to nothing, and the statement after it reads
  \<^verbatim>\<open>snap_it->second\<close> also when \<^verbatim>\<open>snap_it\<close> is \<^verbatim>\<open>end()\<close>.  The language does not say
  what that read yields; \<open>NDEBUG j\<close> is the build in which it yields \<open>j\<close>.
\<close>

datatype build = Debug | NDEBUG nat

text \<open>
  \<^verbatim>\<open>snap->map.find(tag)\<close>, the assertion and \<^verbatim>\<open>snap_it->second\<close> (lines 64-66 and
  104-106).
\<close>

definition find_second :: "build \<Rightarrow> (nat \<Rightarrow> nat option) \<Rightarrow> nat \<Rightarrow> fault + nat" where
  "find_second bld m tag =
     (case m tag of
        Some snap_idx \<Rightarrow> Inr snap_idx
      | None \<Rightarrow> (case bld of Debug \<Rightarrow> Inl AssertionFailure | NDEBUG j \<Rightarrow> Inr j))"

subsection \<open>Python objects\<close>

text \<open>
  What the callable may hand back: \<^verbatim>\<open>None\<close>, an object that converts to a
  \<^verbatim>\<open>Scalar\<close> (a Python float may be infinite or NaN), or an object that does not.  The callable itself is assumed to return
  (it is a function of the snapshot it is given).
\<close>

datatype py_object = PyNone | PyFloat Scalar | PyOther

fun pybind11_cast :: "py_object \<Rightarrow> fault + Scalar" where
  "pybind11_cast (PyFloat x) = Inr x"
| "pybind11_cast PyNone = Inl CastError"
| "pybind11_cast PyOther = Inl CastError"

subsection \<open>Snapshots and the live system\<close>

text \<open>
  \<^verbatim>\<open>SnapshotSystemData<Scalar>\<close>: the fields this header touches.  The records
  are used through their schemes, so the extension part of each stands for every other
  field of the snapshot.
\<close>

record ('p, 'q) SnapshotParticleData =
  pos :: "'p list"
  orientation :: "'q list"

record ('p, 'q, 'x, 'b) SnapshotSystemData =
  global_box :: 'b
  particle_data :: "('p, 'q, 'x) SnapshotParticleData_scheme"
  map_snapshot :: "nat \<Rightarrow> nat option"

text \<open>\<^verbatim>\<open>Shape\<close>: only its \<^verbatim>\<open>orientation\<close> member is read.\<close>

record 'q Shape =
  orientation_shape :: 'q

text \<open>
  The system definition as this class sees it: the array of tags of the locally owned
  particles (\<^verbatim>\<open>m_pdata->getTags()\<close>, of length \<^verbatim>\<open>m_pdata->getN()\<close>) and the live
  configuration, from which snapshots are copied.
\<close>

record ('p, 'q, 'x, 'b, 'y) SystemDefinition =
  getTags :: "nat list"
  configuration :: "('p, 'q, 'x, 'b, 'y) SnapshotSystemData_scheme"

definition getN :: "('p, 'q, 'x, 'b, 'y, 'z) SystemDefinition_scheme \<Rightarrow> nat" where
  "getN sysdef = length (getTags sysdef)"

text \<open>
  Modelled from the spec: \<^verbatim>\<open>SystemDefinition::takeSnapshot\<close> is not part of the sources
  at hand.  The specification describes a snapshot as an owned, value-semantic,
  point-in-time copy of the tag-to-index map, the position and orientation sequences and
  the global box; taking one leaves the system as it is.
\<close>

definition sysdef_takeSnapshot ::
  "('p, 'q, 'x, 'b, 'y, 'z) SystemDefinition_scheme \<Rightarrow>
   ('p, 'q, 'x, 'b, 'y) SnapshotSystemData_scheme \<times> ('p, 'q, 'x, 'b, 'y, 'z) SystemDefinition_scheme" where
  "sysdef_takeSnapshot sysdef = (configuration sysdef, sysdef)"

subsection \<open>The class\<close>

text \<open>
  The object: the system definition it was constructed on and the Python callback,
  \<open>None\<close> standing for \<^verbatim>\<open>pybind11::none()\<close>.
\<close>

record ('p, 'q, 'x, 'b, 'y, 'z) ExternalCallback =
  m_sysdef :: "('p, 'q, 'x, 'b, 'y, 'z) SystemDefinition_scheme"
  callback :: "(('p, 'q, 'x, 'b, 'y) SnapshotSystemData_scheme \<Rightarrow> py_object) option"

text \<open>\<^verbatim>\<open>std::vector::operator[]\<close> on the left of an assignment.\<close>

definition assign :: "'a list \<Rightarrow> nat \<Rightarrow> 'a \<Rightarrow> fault + 'a list" where
  "assign xs i v = (if i < length xs then Inr (xs[i := v]) else Inl Undefined)"

text \<open>\<^verbatim>\<open>takeSnapshot\<close> (lines 124-127).\<close>

definition takeSnapshot ::
  "('p, 'q, 'x, 'b, 'y, 'z) ExternalCallback \<Rightarrow>
   ('p, 'q, 'x, 'b, 'y) SnapshotSystemData_scheme \<times> ('p, 'q, 'x, 'b, 'y, 'z) ExternalCallback" where
  "takeSnapshot this =
     (case sysdef_takeSnapshot (m_sysdef this) of
        (snap, sysdef') \<Rightarrow> (snap, this\<lparr>m_sysdef := sysdef'\<rparr>))"

text \<open>\<^verbatim>\<open>getEnergy\<close> (lines 129-141).\<close>

definition getEnergy ::
  "('p, 'q, 'x, 'b, 'y, 'z) ExternalCallback \<Rightarrow>
   ('p, 'q, 'x, 'b, 'y) SnapshotSystemData_scheme \<Rightarrow> fault + Scalar" where
  "getEnergy this snap =
     (let e = Finite 0 in
      case callback this of
        None \<Rightarrow> Inr e
      | Some f \<Rightarrow>
          (let rv = f snap in
           if rv \<noteq> PyNone then pybind11_cast rv else Inr e))"

text \<open>\<^verbatim>\<open>calculateBoltzmannWeight\<close> (lines 37-42).\<close>

definition calculateBoltzmannWeight ::
  "('p, 'q, 'x, 'b, 'y, 'z) ExternalCallback \<Rightarrow> nat \<Rightarrow>
   fault + (Scalar \<times> ('p, 'q, 'x, 'b, 'y, 'z) ExternalCallback)" where
  "calculateBoltzmannWeight this timestep =
     (case takeSnapshot this of
        (snap, this') \<Rightarrow>
          (case getEnergy this' snap of
             Inl err \<Rightarrow> Inl err
           | Inr energy \<Rightarrow> Inr (exp_Scalar (neg_Scalar energy), this')))"

text \<open>
  The body of the loop of \<^verbatim>\<open>calculateBoltzmannFactor\<close> (lines 63-68) for the local
  index \<open>i\<close>.  The two argument arrays are raw pointers in the source; here they are
  lists, and reading beyond one is \<open>Undefined\<close>.
\<close>

definition calculateBoltzmannFactor_body ::
  "build \<Rightarrow> ('s \<Rightarrow> 'p) \<Rightarrow> ('s \<Rightarrow> 'q) \<Rightarrow> nat list \<Rightarrow> 's list \<Rightarrow> 's list \<Rightarrow> nat \<Rightarrow>
   ('p, 'q, 'x, 'b, 'y) SnapshotSystemData_scheme \<Rightarrow>
   fault + ('p, 'q, 'x, 'b, 'y) SnapshotSystemData_scheme" where
  "calculateBoltzmannFactor_body bld vec3 quat h_tag position_old_arg orientation_old_arg i snap =
     (if length h_tag \<le> i then Inl Undefined
      else
        (let tag = h_tag ! i in
         case find_second bld (map_snapshot snap) tag of
           Inl err \<Rightarrow> Inl err
         | Inr snap_idx \<Rightarrow>
             (if length position_old_arg \<le> i then Inl Undefined
              else
                (case assign (pos (particle_data snap)) snap_idx (vec3 (position_old_arg ! i)) of
                   Inl err \<Rightarrow> Inl err
                 | Inr pos' \<Rightarrow>
                     (if length orientation_old_arg \<le> i then Inl Undefined
                      else
                        (case assign (orientation (particle_data snap)) snap_idx
                                (quat (orientation_old_arg ! i)) of
                           Inl err \<Rightarrow> Inl err
                         | Inr orientation' \<Rightarrow>
                             Inr (snap\<lparr>particle_data :=
                                    (particle_data snap)\<lparr>pos := pos',
                                                         orientation := orientation'\<rparr>\<rparr>)))))))"

text \<open>The loop itself (line 61), started at \<open>i\<close>: it stops at the first fault.\<close>

function calculateBoltzmannFactor_loop ::
  "build \<Rightarrow> ('s \<Rightarrow> 'p) \<Rightarrow> ('s \<Rightarrow> 'q) \<Rightarrow> nat list \<Rightarrow> 's list \<Rightarrow> 's list \<Rightarrow> nat \<Rightarrow> nat \<Rightarrow>
   ('p, 'q, 'x, 'b, 'y) SnapshotSystemData_scheme \<Rightarrow>
   fault + ('p, 'q, 'x, 'b, 'y) SnapshotSystemData_scheme" where
  "calculateBoltzmannFactor_loop bld vec3 quat h_tag position_old_arg orientation_old_arg N i snap =
     (if i < N then
        (case calculateBoltzmannFactor_body bld vec3 quat h_tag position_old_arg
                orientation_old_arg i snap of
           Inl err \<Rightarrow> Inl err
         | Inr snap' \<Rightarrow>
             calculateBoltzmannFactor_loop bld vec3 quat h_tag position_old_arg
               orientation_old_arg N (Suc i) snap')
      else Inr snap)"
  by pat_completeness auto
termination
  by (relation "measure (\<lambda>(bld, vec3, quat, h_tag, position_old_arg, orientation_old_arg, N, i, snap). N - i)")
     auto

declare calculateBoltzmannFactor_loop.simps [simp del]

text \<open>
  The block "update snapshot with old configuration" of \<^verbatim>\<open>calculateBoltzmannFactor\<close>
  (lines 57-69): the box, then the loop over the local particles.
\<close>

definition update_old_configuration ::
  "build \<Rightarrow> ('s \<Rightarrow> 'p) \<Rightarrow> ('s \<Rightarrow> 'q) \<Rightarrow> ('p, 'q, 'x, 'b, 'y, 'z) ExternalCallback \<Rightarrow>
   's list \<Rightarrow> 's list \<Rightarrow> 'b \<Rightarrow>
   ('p, 'q, 'x, 'b, 'y) SnapshotSystemData_scheme \<Rightarrow>
   fault + ('p, 'q, 'x, 'b, 'y) SnapshotSystemData_scheme" where
  "update_old_configuration bld vec3 quat this position_old_arg orientation_old_arg box_old_arg snap =
     (let snap1 = snap\<lparr>global_box := box_old_arg\<rparr>;
          N = getN (m_sysdef this);
          h_tag = getTags (m_sysdef this)
      in calculateBoltzmannFactor_loop bld vec3 quat h_tag position_old_arg orientation_old_arg
           N 0 snap1)"

text \<open>\<^verbatim>\<open>calculateBoltzmannFactor\<close> (lines 49-74).\<close>

definition calculateBoltzmannFactor ::
  "build \<Rightarrow> ('s \<Rightarrow> 'p) \<Rightarrow> ('s \<Rightarrow> 'q) \<Rightarrow> ('p, 'q, 'x, 'b, 'y, 'z) ExternalCallback \<Rightarrow>
   's list \<Rightarrow> 's list \<Rightarrow> 'b \<Rightarrow>
   fault + (Scalar \<times> ('p, 'q, 'x, 'b, 'y, 'z) ExternalCallback)" where
  "calculateBoltzmannFactor bld vec3 quat this position_old_arg orientation_old_arg box_old_arg =
     (case takeSnapshot this of
        (snap, this') \<Rightarrow>
          (case getEnergy this' snap of
             Inl err \<Rightarrow> Inl err
           | Inr energy_new \<Rightarrow>
               (case update_old_configuration bld vec3 quat this' position_old_arg
                       orientation_old_arg box_old_arg snap of
                  Inl err \<Rightarrow> Inl err
                | Inr snap' \<Rightarrow>
                    (case getEnergy this' snap' of
                       Inl err \<Rightarrow> Inl err
                     | Inr energy_old \<Rightarrow>
                         Inr (exp_Scalar (add_Scalar (neg_Scalar energy_new) energy_old),
                              this')))))"

text \<open>\<^verbatim>\<open>compute\<close> (line 77) does nothing.\<close>

definition compute ::
  "('p, 'q, 'x, 'b, 'y, 'z) ExternalCallback \<Rightarrow> nat \<Rightarrow> ('p, 'q, 'x, 'b, 'y, 'z) ExternalCallback" where
  "compute this timestep = this"

text \<open>
  The two assignments to one snapshot slot (lines 109-110 and 114-115): position first,
  then orientation.
\<close>

definition write_slot ::
  "('p, 'q, 'x, 'b, 'y) SnapshotSystemData_scheme \<Rightarrow> nat \<Rightarrow> 'p \<Rightarrow> 'q \<Rightarrow>
   fault + ('p, 'q, 'x, 'b, 'y) SnapshotSystemData_scheme" where
  "write_slot snap snap_idx position orient =
     (case assign (pos (particle_data snap)) snap_idx position of
        Inl err \<Rightarrow> Inl err
      | Inr pos' \<Rightarrow>
          (case assign (orientation (particle_data snap)) snap_idx orient of
             Inl err \<Rightarrow> Inl err
           | Inr orientation' \<Rightarrow>
               Inr (snap\<lparr>particle_data :=
                      (particle_data snap)\<lparr>pos := pos', orientation := orientation'\<rparr>\<rparr>)))"

text \<open>
  \<^verbatim>\<open>boltzmann\<close> (lines 93-119).  Line 100 reads \<^verbatim>\<open>h_tag.data[index]\<close> without a
  check; an index that is not a local one is marked \<open>Undefined\<close>.
\<close>

definition boltzmann ::
  "build \<Rightarrow> ('p, 'q, 'x, 'b, 'y, 'z) ExternalCallback \<Rightarrow> nat \<Rightarrow> 'p \<Rightarrow> ('q, 'w) Shape_scheme \<Rightarrow>
   'p \<Rightarrow> ('q, 'w) Shape_scheme \<Rightarrow>
   fault + (Scalar \<times> ('p, 'q, 'x, 'b, 'y, 'z) ExternalCallback)" where
  "boltzmann bld this index position_old shape_old position_new shape_new =
     (if getN (m_sysdef this) \<le> index then Inl Undefined
      else
        (let tag = getTags (m_sysdef this) ! index in
         case takeSnapshot this of
           (snap, this') \<Rightarrow>
             (case find_second bld (map_snapshot snap) tag of
                Inl err \<Rightarrow> Inl err
              | Inr snap_idx \<Rightarrow>
                  (case write_slot snap snap_idx position_old (orientation_shape shape_old) of
                     Inl err \<Rightarrow> Inl err
                   | Inr snap1 \<Rightarrow>
                       (case getEnergy this' snap1 of
                          Inl err \<Rightarrow> Inl err
                        | Inr energy_old \<Rightarrow>
                            (case write_slot snap1 snap_idx position_new
                                    (orientation_shape shape_new) of
                               Inl err \<Rightarrow> Inl err
                             | Inr snap2 \<Rightarrow>
                                 (case getEnergy this' snap2 of
                                    Inl err \<Rightarrow> Inl err
                                  | Inr energy_new \<Rightarrow>
                                      Inr (exp_Scalar
                                             (add_Scalar (neg_Scalar energy_new) energy_old),
                                           this'))))))))"

text \<open>
  \<^verbatim>\<open>accept\<close> (lines 80-91).  The generator \<^verbatim>\<open>Saru\<close> is declared elsewhere: \<open>rng_s\<close>
  stands for its member \<^verbatim>\<open>s(low, high)\<close>, which yields the drawn value and the advanced
  generator.
\<close>

definition accept ::
  "build \<Rightarrow> ('r \<Rightarrow> Scalar \<Rightarrow> Scalar \<Rightarrow> Scalar \<times> 'r) \<Rightarrow>
   ('p, 'q, 'x, 'b, 'y, 'z) ExternalCallback \<Rightarrow> nat \<Rightarrow> 'p \<Rightarrow> ('q, 'w) Shape_scheme \<Rightarrow>
   'p \<Rightarrow> ('q, 'w) Shape_scheme \<Rightarrow> 'r \<Rightarrow>
   fault + (bool \<times> 'r \<times> ('p, 'q, 'x, 'b, 'y, 'z) ExternalCallback)" where
  "accept bld rng_s this index position_old shape_old position_new shape_new rng =
     (case boltzmann bld this index position_old shape_old position_new shape_new of
        Inl err \<Rightarrow> Inl err
      | Inr (boltz, this') \<Rightarrow>
          (case rng_s rng (Finite 0) (Finite 1) of
             (u, rng') \<Rightarrow>
               (let reject = (if less_Scalar u boltz then False else True)
                in Inr (\<not> reject, rng', this'))))"

subsection \<open>The configurations the specification speaks of\<close>

text \<open>
  These definitions follow the words of the specification, not the code; the theorems
  below compare the code with them.
\<close>

text \<open>"\<open>E_old - E_new\<close>": subtraction is the sum with the negated second operand.\<close>

definition sub_Scalar :: "Scalar \<Rightarrow> Scalar \<Rightarrow> Scalar" where
  "sub_Scalar a b = add_Scalar a (neg_Scalar b)"

text \<open>
  "Overwrite that single snapshot slot with the position/orientation": slot \<open>k\<close> of both
  sequences is replaced, nothing else.
\<close>

definition overwrite_slot ::
  "('p, 'q, 'x, 'b, 'y) SnapshotSystemData_scheme \<Rightarrow> nat \<Rightarrow> 'p \<Rightarrow> 'q \<Rightarrow>
   ('p, 'q, 'x, 'b, 'y) SnapshotSystemData_scheme" where
  "overwrite_slot snap k p q =
     snap\<lparr>particle_data :=
       (particle_data snap)\<lparr>pos := (pos (particle_data snap))[k := p],
                            orientation := (orientation (particle_data snap))[k := q]\<rparr>\<rparr>"

text \<open>
  "Overwrite that snapshot's box with the supplied old box; for every local particle,
  resolve its tag via the live tag array and overwrite the snapshot's
  position/orientation at that tag's mapped index with the supplied old values."
\<close>

definition old_configuration ::
  "('s \<Rightarrow> 'p) \<Rightarrow> ('s \<Rightarrow> 'q) \<Rightarrow> nat list \<Rightarrow> 's list \<Rightarrow> 's list \<Rightarrow> 'b \<Rightarrow>
   ('p, 'q, 'x, 'b, 'y) SnapshotSystemData_scheme \<Rightarrow>
   ('p, 'q, 'x, 'b, 'y) SnapshotSystemData_scheme" where
  "old_configuration vec3 quat h_tag position_old orientation_old box_old snap =
     fold (\<lambda>i s. case map_snapshot s (h_tag ! i) of
                    None \<Rightarrow> s
                  | Some k \<Rightarrow> overwrite_slot s k (vec3 (position_old ! i))
                                (quat (orientation_old ! i)))
          [0..<length h_tag]
          (snap\<lparr>global_box := box_old\<rparr>)"


subsection \<open>A small system\<close>

text \<open>
  Two locally owned particles with tags 7 and 3, stored in the snapshot at slots 1 and
  0, in a snapshot of three particles; positions are triples, orientations quadruples,
  the box is its edge length.  The callback is a harmonic restraint to the origin with
  spring constant 2, scaled by the box; \<open>lattice_field\<close> carries it, \<open>null_field\<close>
  carries no callback.
\<close>

type_synonym vec3 = "real \<times> real \<times> real"
type_synonym quat = "real \<times> real \<times> real \<times> real"

definition small_snapshot :: "(vec3, quat, unit, real) SnapshotSystemData" where
  "small_snapshot =
     \<lparr>global_box = 1,
      particle_data = \<lparr>pos = [(0, 0, 0), (1, 0, 0), (0, 2, 0)],
                       orientation = [(1, 0, 0, 0), (1, 0, 0, 0), (1, 0, 0, 0)]\<rparr>,
      map_snapshot = [3 \<mapsto> 0, 7 \<mapsto> 1, 5 \<mapsto> 2]\<rparr>"

definition small_system :: "(vec3, quat, unit, real, unit) SystemDefinition" where
  "small_system = \<lparr>getTags = [7, 3], configuration = small_snapshot\<rparr>"

fun norm2 :: "vec3 \<Rightarrow> real" where
  "norm2 (x, y, z) = x * x + y * y + z * z"

definition restraint :: "(vec3, quat, unit, real) SnapshotSystemData \<Rightarrow> py_object" where
  "restraint snap =
     PyFloat (Finite (2 * global_box snap * sum_list (map norm2 (pos (particle_data snap)))))"

definition lattice_field :: "(vec3, quat, unit, real, unit, unit) ExternalCallback" where
  "lattice_field = \<lparr>m_sysdef = small_system, callback = Some restraint\<rparr>"

definition null_field :: "(vec3, quat, unit, real, unit, unit) ExternalCallback" where
  "null_field = \<lparr>m_sysdef = small_system, callback = None\<rparr>"

definition upright :: "quat Shape" where
  "upright = \<lparr>orientation_shape = (1, 0, 0, 0)\<rparr>"

text \<open>
  Four variants: \<open>empty_field\<close> owns no particle locally, the callback of
  \<open>silent_field\<close> returns \<^verbatim>\<open>None\<close>, \<open>stale_field\<close> holds a live tag, 9, that the
  snapshot's map does not know, and the callback of \<open>hard_field\<close> returns
  \<^verbatim>\<open>float('inf')\<close> for every configuration.
\<close>

definition hard_field :: "(vec3, quat, unit, real, unit, unit) ExternalCallback" where
  "hard_field = \<lparr>m_sysdef = small_system, callback = Some (\<lambda>snap. PyFloat PosInf)\<rparr>"

definition empty_field :: "(vec3, quat, unit, real, unit, unit) ExternalCallback" where
  "empty_field = \<lparr>m_sysdef = \<lparr>getTags = [], configuration = small_snapshot\<rparr>,
                  callback = Some restraint\<rparr>"

definition silent_field :: "(vec3, quat, unit, real, unit, unit) ExternalCallback" where
  "silent_field = \<lparr>m_sysdef = small_system, callback = Some (\<lambda>snap. PyNone)\<rparr>"


text \<open>The conversions from \<^verbatim>\<open>Scalar4\<close> used with the small system.\<close>

fun xyz :: "quat \<Rightarrow> vec3" where
  "xyz (x, y, z, w) = (x, y, z)"

definition as_quat :: "quat \<Rightarrow> quat" where
  "as_quat a = a"

text \<open>A generator that yields the values of a list in turn.\<close>

fun list_rng :: "real list \<Rightarrow> Scalar \<Rightarrow> Scalar \<Rightarrow> Scalar \<times> real list" where
  "list_rng [] low high = (low, [])"
| "list_rng (u # us) low high = (Finite u, us)"

section \<open>Auxiliary facts\<close>

subsection \<open>Scalars\<close>

lemma add_Scalar_commute: "add_Scalar a b = add_Scalar b a"
  by (cases a; cases b) simp_all

lemma add_neg_Scalar: "add_Scalar (neg_Scalar b) a = sub_Scalar a b"
  by (simp add: sub_Scalar_def add_Scalar_commute [of a])

lemma sub_Scalar_Finite_self: "sub_Scalar (Finite x) (Finite x) = Finite 0"
  by (simp add: sub_Scalar_def)

subsection \<open>Looking a tag up\<close>

lemma find_second_Some: "m tag = Some k \<Longrightarrow> find_second bld m tag = Inr k"
  by (simp add: find_second_def)




subsection \<open>Assignments and single slots\<close>

lemma write_slot_Inr:
  "write_slot snap k p q = Inr snap' \<longleftrightarrow>
     k < length (pos (particle_data snap)) \<and> k < length (orientation (particle_data snap)) \<and>
     snap' = overwrite_slot snap k p q"
  by (auto simp: write_slot_def overwrite_slot_def assign_def split: sum.splits if_splits)

lemma overwrite_slot_twice:
  "overwrite_slot (overwrite_slot snap k p q) k p' q' = overwrite_slot snap k p' q'"
  by (simp add: overwrite_slot_def)

lemma overwrite_slot_fields:
  "map_snapshot (overwrite_slot snap k p q) = map_snapshot snap"
  "global_box (overwrite_slot snap k p q) = global_box snap"
  "SnapshotSystemData.more (overwrite_slot snap k p q) = SnapshotSystemData.more snap"
  "SnapshotParticleData.more (particle_data (overwrite_slot snap k p q)) = SnapshotParticleData.more (particle_data snap)"
  "length (pos (particle_data (overwrite_slot snap k p q))) = length (pos (particle_data snap))"
  "length (orientation (particle_data (overwrite_slot snap k p q))) = length (orientation (particle_data snap))"
  "pos (particle_data (overwrite_slot snap k p q)) = (pos (particle_data snap))[k := p]"
  "orientation (particle_data (overwrite_slot snap k p q)) = (orientation (particle_data snap))[k := q]"
  by (simp_all add: overwrite_slot_def)

lemma takeSnapshot_this:
  "takeSnapshot this = (snap, this') \<Longrightarrow> callback this' = callback this"
  by (auto simp: takeSnapshot_def split: prod.splits)



lemma boltzmann_slot:
  assumes "index < getN (m_sysdef this)"
    and "takeSnapshot this = (snap, this')"
    and "find_second bld (map_snapshot snap) (getTags (m_sysdef this) ! index) = Inr k"
    and "k < length (pos (particle_data snap))"
    and "k < length (orientation (particle_data snap))"
  shows "boltzmann bld this index position_old shape_old position_new shape_new =
           (case getEnergy this' (overwrite_slot snap k position_old (orientation_shape shape_old)) of
              Inl err \<Rightarrow> Inl err
            | Inr energy_old \<Rightarrow>
                (case getEnergy this'
                        (overwrite_slot snap k position_new (orientation_shape shape_new)) of
                   Inl err \<Rightarrow> Inl err
                 | Inr energy_new \<Rightarrow>
                     Inr (exp_Scalar (sub_Scalar energy_old energy_new), this')))"
proof -
  let ?s1 = "overwrite_slot snap k position_old (orientation_shape shape_old)"
  have w1: "write_slot snap k position_old (orientation_shape shape_old) = Inr ?s1"
    using assms(4,5) by (simp add: write_slot_Inr)
  have w2: "write_slot ?s1 k position_new (orientation_shape shape_new)
              = Inr (overwrite_slot snap k position_new (orientation_shape shape_new))"
    using assms(4,5) by (simp add: write_slot_Inr overwrite_slot_fields overwrite_slot_twice)
  show ?thesis
    using assms(1)
    by (simp add: boltzmann_def assms(2,3) w1 w2 add_neg_Scalar split: sum.splits)
qed

lemma boltzmann_resolved:
  assumes "index < getN (m_sysdef this)"
    and "takeSnapshot this = (snap, this')"
    and "map_snapshot snap (getTags (m_sysdef this) ! index) = Some k"
    and "k < length (pos (particle_data snap))"
    and "k < length (orientation (particle_data snap))"
  shows "boltzmann bld this index position_old shape_old position_new shape_new =
           (case getEnergy this' (overwrite_slot snap k position_old (orientation_shape shape_old)) of
              Inl err \<Rightarrow> Inl err
            | Inr energy_old \<Rightarrow>
                (case getEnergy this'
                        (overwrite_slot snap k position_new (orientation_shape shape_new)) of
                   Inl err \<Rightarrow> Inl err
                 | Inr energy_new \<Rightarrow>
                     Inr (exp_Scalar (sub_Scalar energy_old energy_new), this')))"
  using assms by (intro boltzmann_slot) (simp_all add: find_second_Some)

subsection \<open>The loop over the local particles\<close>

lemma body_Inr:
  "calculateBoltzmannFactor_body bld vec3 quat h_tag Ps Qs i snap = Inr snap' \<longleftrightarrow>
     i < length h_tag \<and> i < length Ps \<and> i < length Qs \<and>
     (\<exists>k. find_second bld (map_snapshot snap) (h_tag ! i) = Inr k \<and>
          k < length (pos (particle_data snap)) \<and>
          k < length (orientation (particle_data snap)) \<and>
          snap' = overwrite_slot snap k (vec3 (Ps ! i)) (quat (Qs ! i)))"
  by (auto simp: calculateBoltzmannFactor_body_def overwrite_slot_def assign_def Let_def
           split: sum.splits if_splits)


lemma loop_step:
  "i < N \<Longrightarrow> calculateBoltzmannFactor_loop bld vec3 quat h_tag Ps Qs N i snap =
     (case calculateBoltzmannFactor_body bld vec3 quat h_tag Ps Qs i snap of
        Inl err \<Rightarrow> Inl err
      | Inr snap' \<Rightarrow> calculateBoltzmannFactor_loop bld vec3 quat h_tag Ps Qs N (Suc i) snap')"
  by (subst calculateBoltzmannFactor_loop.simps) simp

lemma loop_done:
  "\<not> i < N \<Longrightarrow> calculateBoltzmannFactor_loop bld vec3 quat h_tag Ps Qs N i snap = Inr snap"
  by (subst calculateBoltzmannFactor_loop.simps) simp



lemma loop_fold:
  "N \<le> length h_tag \<Longrightarrow> N \<le> length Ps \<Longrightarrow> N \<le> length Qs \<Longrightarrow>
   (\<And>j. i \<le> j \<Longrightarrow> j < N \<Longrightarrow> \<exists>k. map_snapshot snap (h_tag ! j) = Some k \<and>
          k < length (pos (particle_data snap)) \<and>
          k < length (orientation (particle_data snap))) \<Longrightarrow>
   calculateBoltzmannFactor_loop bld vec3 quat h_tag Ps Qs N i snap =
     Inr (fold (\<lambda>i s. case map_snapshot s (h_tag ! i) of
                    None \<Rightarrow> s
                  | Some k \<Rightarrow> overwrite_slot s k (vec3 (Ps ! i)) (quat (Qs ! i))) [i..<N] snap)"
proof (induction bld vec3 quat h_tag Ps Qs N i snap rule: calculateBoltzmannFactor_loop.induct)
  case (1 bld vec3 quat h_tag Ps Qs N i snap)
  show ?case
  proof (cases "i < N")
    case False
    then show ?thesis by (simp add: loop_done)
  next
    case True
    from "1.prems"(4)[of i] True obtain k where k: "map_snapshot snap (h_tag ! i) = Some k"
      "k < length (pos (particle_data snap))" "k < length (orientation (particle_data snap))"
      by auto
    let ?s1 = "overwrite_slot snap k (vec3 (Ps ! i)) (quat (Qs ! i))"
    have b: "calculateBoltzmannFactor_body bld vec3 quat h_tag Ps Qs i snap = Inr ?s1"
      using True "1.prems"(1,2,3) k by (simp add: body_Inr find_second_Some)
    have pre: "\<And>j. Suc i \<le> j \<Longrightarrow> j < N \<Longrightarrow> \<exists>k. map_snapshot ?s1 (h_tag ! j) = Some k \<and>
          k < length (pos (particle_data ?s1)) \<and> k < length (orientation (particle_data ?s1))"
      using "1.prems"(4) by (simp add: overwrite_slot_fields)
    from "1.IH"[OF True b "1.prems"(1,2,3) pre]
    show ?thesis using True b k by (simp add: loop_step upt_conv_Cons)
  qed
qed


subsection \<open>The update of the snapshot\<close>

lemma update_old_configuration_fold:
  assumes "length (getTags (m_sysdef this)) \<le> length Ps"
    and "length (getTags (m_sysdef this)) \<le> length Qs"
    and "\<And>i. i < length (getTags (m_sysdef this)) \<Longrightarrow>
           \<exists>k. map_snapshot snap (getTags (m_sysdef this) ! i) = Some k \<and>
               k < length (pos (particle_data snap)) \<and>
               k < length (orientation (particle_data snap))"
  shows "update_old_configuration bld vec3 quat this Ps Qs box_old snap =
           Inr (old_configuration vec3 quat (getTags (m_sysdef this)) Ps Qs box_old snap)"
  unfolding update_old_configuration_def old_configuration_def Let_def getN_def
  by (rule loop_fold) (use assms in simp_all)


subsection \<open>The small system\<close>

lemmas small_defs =
  lattice_field_def null_field_def small_system_def small_snapshot_def restraint_def
  upright_def getN_def

lemma takeSnapshot_lattice_field: "takeSnapshot lattice_field = (small_snapshot, lattice_field)"
  by (simp add: takeSnapshot_def sysdef_takeSnapshot_def lattice_field_def small_system_def)

lemma takeSnapshot_null_field: "takeSnapshot null_field = (small_snapshot, null_field)"
  by (simp add: takeSnapshot_def sysdef_takeSnapshot_def null_field_def small_system_def)


lemma exp_minus_8: "exp (- 8 :: real) < 1 / 2"
proof -
  have "(1::real) + 8 \<le> exp 8" by (rule exp_ge_add_one_self)
  then have "(2::real) < exp 8" by simp
  then have "inverse (exp (8::real)) < inverse 2"
    by (simp add: field_simps)
  then show ?thesis by (simp add: exp_minus)
qed

lemma old_configuration_small:
  "old_configuration xyz as_quat [7, 3] [(0, 0, 0, 0), (0, 0, 0, 0)]
     [(1, 0, 0, 0), (1, 0, 0, 0)] 2 small_snapshot
   = \<lparr>global_box = 2,
      particle_data = \<lparr>pos = [(0, 0, 0), (0, 0, 0), (0, 2, 0)],
                       orientation = [(1, 0, 0, 0), (1, 0, 0, 0), (1, 0, 0, 0)]\<rparr>,
      map_snapshot = [3 \<mapsto> 0, 7 \<mapsto> 1, 5 \<mapsto> 2]\<rparr>"
  by (simp add: old_configuration_def overwrite_slot_def small_snapshot_def as_quat_def)


section \<open>The single-particle move\<close>

text \<open>
  Claim C1.  \<^verbatim>\<open>boltzmann\<close> reads the tag of the particle at the live local index, takes a
  snapshot, and looks the tag up in the snapshot's map.  When the index is a local one, the
  tag is mapped to a slot \<open>k\<close> of the snapshot and both energies are obtained, the result is
  \<open>exp (E_old - E_new)\<close>, where \<open>E_old\<close> is the energy of the snapshot with slot \<open>k\<close>
  overwritten by the old position and orientation and \<open>E_new\<close> the energy of the snapshot
  with the same slot overwritten by the new position and orientation.  This holds in
  every build and for all energies, infinite ones and NaN included.
\<close>

theorem boltzmann_value:
  assumes "index < getN (m_sysdef this)"
    and "takeSnapshot this = (snap, this')"
    and "map_snapshot snap (getTags (m_sysdef this) ! index) = Some k"
    and "k < length (pos (particle_data snap))"
    and "k < length (orientation (particle_data snap))"
    and "getEnergy this' (overwrite_slot snap k position_old (orientation_shape shape_old)) = Inr E_old"
    and "getEnergy this' (overwrite_slot snap k position_new (orientation_shape shape_new)) = Inr E_new"
  shows "boltzmann bld this index position_old shape_old position_new shape_new
           = Inr (exp_Scalar (sub_Scalar E_old E_new), this')"
  by (simp add: boltzmann_resolved [OF assms(1-5)] assms(6,7))

theorem boltzmann_value_witness:
  "boltzmann Debug lattice_field 0 (0, 0, 0) upright (2, 0, 0) upright
     = Inr (exp_Scalar (sub_Scalar (Finite 8) (Finite 16)), lattice_field)"
proof (rule boltzmann_value [where snap = small_snapshot and k = 1])
  show "0 < getN (m_sysdef lattice_field)" by (simp add: small_defs)
  show "takeSnapshot lattice_field = (small_snapshot, lattice_field)"
    by (rule takeSnapshot_lattice_field)
  show "map_snapshot small_snapshot (getTags (m_sysdef lattice_field) ! 0) = Some 1"
    by (simp add: small_defs)
  show "1 < length (pos (particle_data small_snapshot))" by (simp add: small_defs)
  show "1 < length (orientation (particle_data small_snapshot))" by (simp add: small_defs)
  show "getEnergy lattice_field (overwrite_slot small_snapshot 1 (0, 0, 0) (orientation_shape upright))
          = Inr (Finite 8)"
    by (simp add: getEnergy_def overwrite_slot_def small_defs)
  show "getEnergy lattice_field (overwrite_slot small_snapshot 1 (2, 0, 0) (orientation_shape upright))
          = Inr (Finite 16)"
    by (simp add: getEnergy_def overwrite_slot_def small_defs)
qed

text \<open>
  Claim C2.  \<^verbatim>\<open>accept\<close> draws one value \<open>u\<close> from the generator after the Boltzmann factor
  \<open>r\<close> has been computed; it returns true exactly when \<open>u < r\<close>, and in both cases the
  generator it leaves behind is the one after that single draw.
\<close>

theorem accept_iff:
  assumes "boltzmann bld this index position_old shape_old position_new shape_new = Inr (r, this')"
    and "rng_s rng (Finite 0) (Finite 1) = (u, rng')"
  shows "accept bld rng_s this index position_old shape_old position_new shape_new rng
           = Inr (less_Scalar u r, rng', this')"
  using assms by (simp add: accept_def)

theorem accept_iff_witness:
  "accept Debug list_rng lattice_field 0 (1, 0, 0) upright (1, 0, 0) upright [1 / 2, 1 / 4]
     = Inr (True, [1 / 4], lattice_field) \<and>
   accept Debug list_rng lattice_field 0 (0, 0, 0) upright (2, 0, 0) upright [1 / 2, 1 / 4]
     = Inr (False, [1 / 4], lattice_field)"
proof
  have b: "boltzmann Debug lattice_field 0 (1, 0, 0) upright (1, 0, 0) upright
             = Inr (Finite 1, lattice_field)"
    by (simp add: boltzmann_def takeSnapshot_def sysdef_takeSnapshot_def write_slot_def
          find_second_def assign_def getEnergy_def small_defs)
  have d: "list_rng [1 / 2, 1 / 4] (Finite 0) (Finite 1) = (Finite (1 / 2), [1 / 4])" by simp
  show "accept Debug list_rng lattice_field 0 (1, 0, 0) upright (1, 0, 0) upright [1 / 2, 1 / 4]
     = Inr (True, [1 / 4], lattice_field)"
    using accept_iff [where rng_s = list_rng and rng = "[1 / 2, 1 / 4]", OF b d] by simp
next
  have b: "boltzmann Debug lattice_field 0 (0, 0, 0) upright (2, 0, 0) upright
             = Inr (Finite (exp (- 8)), lattice_field)"
    by (simp add: boltzmann_def takeSnapshot_def sysdef_takeSnapshot_def write_slot_def
          find_second_def assign_def getEnergy_def small_defs)
  have d: "list_rng [1 / 2, 1 / 4] (Finite 0) (Finite 1) = (Finite (1 / 2), [1 / 4])" by simp
  show "accept Debug list_rng lattice_field 0 (0, 0, 0) upright (2, 0, 0) upright [1 / 2, 1 / 4]
     = Inr (False, [1 / 4], lattice_field)"
    using accept_iff [where rng_s = list_rng and rng = "[1 / 2, 1 / 4]", OF b d] exp_minus_8
    by simp
qed

text \<open>
  Claim C7.  When \<^verbatim>\<open>boltzmann\<close> returns, the object and with it the system definition
  (the tag array and the live configuration, hence every live position and orientation)
  are what they were before the call: the two overwrites went to the snapshot, which
  is a copy.
\<close>

theorem boltzmann_snapshot_isolation:
  assumes "boltzmann bld this index position_old shape_old position_new shape_new = Inr (r, this')"
  shows "m_sysdef this' = m_sysdef this \<and> this' = this"
  using assms
  by (auto simp: boltzmann_def takeSnapshot_def sysdef_takeSnapshot_def Let_def
           split: if_splits sum.splits)

theorem boltzmann_snapshot_isolation_witness:
  "\<exists>r this'. boltzmann Debug lattice_field 0 (0, 0, 0) upright (2, 0, 0) upright = Inr (r, this') \<and>
      configuration (m_sysdef this') = small_snapshot \<and> getTags (m_sysdef this') = [7, 3]"
proof -
  have b: "boltzmann Debug lattice_field 0 (0, 0, 0) upright (2, 0, 0) upright
             = Inr (Finite (exp (- 8)), lattice_field)"
    by (simp add: boltzmann_def takeSnapshot_def sysdef_takeSnapshot_def write_slot_def
          find_second_def assign_def getEnergy_def small_defs)
  from boltzmann_snapshot_isolation [OF b]
  have "configuration (m_sysdef lattice_field) = small_snapshot \<and>
        getTags (m_sysdef lattice_field) = [7, 3]"
    by (simp add: lattice_field_def small_system_def)
  with b show ?thesis by blast
qed

text \<open>
  Claim C8, for finite energies.  A move whose new position and shape are the old ones has
  Boltzmann factor exactly 1 whenever the energy \<open>E\<close> that the callback gives to the
  snapshot is a finite number; the index is a local one and its tag is mapped to an
  existing slot.  (The callback is a function of the snapshot, so it gives the same
  energy to the two equal snapshots.)
\<close>

theorem boltzmann_noop_finite:
  assumes "index < getN (m_sysdef this)"
    and "takeSnapshot this = (snap, this')"
    and "map_snapshot snap (getTags (m_sysdef this) ! index) = Some k"
    and "k < length (pos (particle_data snap))"
    and "k < length (orientation (particle_data snap))"
    and "getEnergy this' (overwrite_slot snap k position_old (orientation_shape shape_old))
           = Inr (Finite E)"
  shows "boltzmann bld this index position_old shape_old position_old shape_old
           = Inr (Finite 1, this')"
  by (simp add: boltzmann_resolved [OF assms(1-5)] assms(6) sub_Scalar_Finite_self)

theorem boltzmann_noop_finite_witness:
  "boltzmann Debug lattice_field 1 (5, 0, 0) upright (5, 0, 0) upright
     = Inr (Finite 1, lattice_field)"
proof (rule boltzmann_noop_finite [where snap = small_snapshot and k = 0])
  show "1 < getN (m_sysdef lattice_field)" by (simp add: small_defs)
  show "takeSnapshot lattice_field = (small_snapshot, lattice_field)"
    by (rule takeSnapshot_lattice_field)
  show "map_snapshot small_snapshot (getTags (m_sysdef lattice_field) ! 1) = Some 0"
    by (simp add: small_defs)
  show "0 < length (pos (particle_data small_snapshot))" by (simp add: small_defs)
  show "0 < length (orientation (particle_data small_snapshot))" by (simp add: small_defs)
  show "getEnergy lattice_field (overwrite_slot small_snapshot 0 (5, 0, 0) (orientation_shape upright))
          = Inr (Finite 60)"
    by (simp add: getEnergy_def overwrite_slot_def small_defs)
qed

text \<open>
  Claim C8 fails without the restriction to finite energies: the callback of \<open>hard_field\<close> is a constant function of the
  snapshot, its energy is \<open>+inf\<close>, and the move that changes nothing has the factor
  \<open>exp (-inf + inf)\<close>, which is NaN and not 1.
\<close>

theorem boltzmann_noop_counterexample:
  "boltzmann Debug hard_field 1 (5, 0, 0) upright (5, 0, 0) upright = Inr (NaN, hard_field) \<and>
   boltzmann Debug hard_field 1 (5, 0, 0) upright (5, 0, 0) upright \<noteq> Inr (Finite 1, hard_field)"
  by (simp add: boltzmann_def takeSnapshot_def sysdef_takeSnapshot_def write_slot_def
        find_second_def assign_def getEnergy_def hard_field_def small_system_def
        small_snapshot_def upright_def getN_def)

text \<open>
  Claim C10.  Without a callback both energies are 0, so \<^verbatim>\<open>boltzmann\<close> returns exactly 1,
  and \<^verbatim>\<open>accept\<close> returns true for every drawn \<open>u\<close> with \<open>0 \<le> u < 1\<close>, leaving the
  generator as it is after that one draw.
\<close>

theorem absent_callback_accepts:
  assumes "callback this = None"
    and "index < getN (m_sysdef this)"
    and "takeSnapshot this = (snap, this')"
    and "map_snapshot snap (getTags (m_sysdef this) ! index) = Some k"
    and "k < length (pos (particle_data snap))"
    and "k < length (orientation (particle_data snap))"
    and "rng_s rng (Finite 0) (Finite 1) = (Finite u, rng')"
    and "0 \<le> u" and "u < 1"
  shows "boltzmann bld this index position_old shape_old position_new shape_new
           = Inr (Finite 1, this') \<and>
         accept bld rng_s this index position_old shape_old position_new shape_new rng
           = Inr (True, rng', this')"
proof -
  from assms(1,3) have "callback this' = None" by (simp add: takeSnapshot_this)
  then have e: "getEnergy this' s = Inr (Finite 0)" for s by (simp add: getEnergy_def)
  have b: "boltzmann bld this index position_old shape_old position_new shape_new
             = Inr (Finite 1, this')"
    by (simp add: boltzmann_resolved [OF assms(2-6)] e sub_Scalar_Finite_self)
  then show ?thesis using assms(7,9) by (simp add: accept_def)
qed

theorem absent_callback_accepts_witness:
  "boltzmann (NDEBUG 0) null_field 0 (0, 0, 0) upright (2, 0, 0) upright
     = Inr (Finite 1, null_field) \<and>
   accept (NDEBUG 0) list_rng null_field 0 (0, 0, 0) upright (2, 0, 0) upright [3 / 4, 1 / 4]
     = Inr (True, [1 / 4], null_field)"
proof (rule absent_callback_accepts [where snap = small_snapshot and k = 1 and u = "3 / 4"])
  show "callback null_field = None" by (simp add: null_field_def)
  show "0 < getN (m_sysdef null_field)" by (simp add: small_defs)
  show "takeSnapshot null_field = (small_snapshot, null_field)"
    by (rule takeSnapshot_null_field)
  show "map_snapshot small_snapshot (getTags (m_sysdef null_field) ! 0) = Some 1"
    by (simp add: small_defs)
  show "1 < length (pos (particle_data small_snapshot))" by (simp add: small_defs)
  show "1 < length (orientation (particle_data small_snapshot))" by (simp add: small_defs)
  show "list_rng [3 / 4, 1 / 4] (Finite 0) (Finite 1) = (Finite (3 / 4), [1 / 4])" by simp
  show "(0::real) \<le> 3 / 4" by simp
  show "(3 / 4 :: real) < 1" by simp
qed

section \<open>The energy of a snapshot\<close>

text \<open>
  Claim C4.  \<^verbatim>\<open>getEnergy\<close> has two levels of absence: without a callback the energy is
  0 and nothing is called; with a callback \<open>f\<close>, a return value \<^verbatim>\<open>None\<close> gives 0, and
  every other return value is handed to \<^verbatim>\<open>pybind11::cast<Scalar>\<close>, which for a number
  yields that number.
\<close>

theorem getEnergy_two_level:
  "(callback this = None \<longrightarrow> getEnergy this snap = Inr (Finite 0)) \<and>
   (\<forall>f. callback this = Some f \<longrightarrow>
      (f snap = PyNone \<longrightarrow> getEnergy this snap = Inr (Finite 0)) \<and>
      (f snap \<noteq> PyNone \<longrightarrow> getEnergy this snap = pybind11_cast (f snap)) \<and>
      (\<forall>x. f snap = PyFloat x \<longrightarrow> getEnergy this snap = Inr x))"
  by (simp add: getEnergy_def Let_def)

theorem getEnergy_two_level_witness:
  "getEnergy null_field small_snapshot = Inr (Finite 0) \<and>
   getEnergy silent_field small_snapshot = Inr (Finite 0) \<and>
   getEnergy lattice_field small_snapshot = Inr (Finite 10)"
proof (intro conjI)
  show "getEnergy null_field small_snapshot = Inr (Finite 0)"
    using getEnergy_two_level [of null_field small_snapshot] by (simp add: null_field_def)
  show "getEnergy silent_field small_snapshot = Inr (Finite 0)"
    using getEnergy_two_level [of silent_field small_snapshot] by (simp add: silent_field_def)
  have "restraint small_snapshot = PyFloat (Finite 10)" by (simp add: small_defs)
  then show "getEnergy lattice_field small_snapshot = Inr (Finite 10)"
    using getEnergy_two_level [of lattice_field small_snapshot] by (simp add: lattice_field_def)
qed

section \<open>The weight of the current configuration\<close>

text \<open>
  Claim C9.  \<^verbatim>\<open>calculateBoltzmannWeight\<close> returns \<open>exp (- E)\<close> for the energy \<open>E\<close> of a
  snapshot of the live configuration.  It takes no generator, and the time step does not
  enter: on the same object any two time steps give the same result.
\<close>

theorem calculateBoltzmannWeight_value:
  assumes "takeSnapshot this = (snap, this')"
    and "getEnergy this' snap = Inr E"
  shows "calculateBoltzmannWeight this timestep = Inr (exp_Scalar (neg_Scalar E), this') \<and>
         calculateBoltzmannWeight this timestep' = calculateBoltzmannWeight this timestep"
  using assms by (simp add: calculateBoltzmannWeight_def)

theorem calculateBoltzmannWeight_value_witness:
  "calculateBoltzmannWeight lattice_field 0
     = Inr (exp_Scalar (neg_Scalar (Finite 10)), lattice_field) \<and>
   calculateBoltzmannWeight lattice_field 17 = calculateBoltzmannWeight lattice_field 0"
proof -
  have e: "getEnergy lattice_field small_snapshot = Inr (Finite 10)"
    by (simp add: getEnergy_def small_defs)
  from calculateBoltzmannWeight_value [OF takeSnapshot_lattice_field e, of 0 17]
  show ?thesis by simp
qed

section \<open>The volume move\<close>

text \<open>
  Claim C3.  \<^verbatim>\<open>calculateBoltzmannFactor\<close> computes \<open>E_new\<close> on a snapshot of the current
  configuration and \<open>E_old\<close> on that snapshot after the box has been replaced by the old
  box and, for each of the \<open>N\<close> local particles, the slot its tag is mapped to has been
  overwritten with the supplied old position and orientation; it returns
  \<open>exp (E_old - E_new)\<close>.  This holds for every \<open>N\<close>, and for \<open>N = 0\<close> the old
  configuration is the snapshot with nothing but the box replaced.
\<close>

theorem calculateBoltzmannFactor_value:
  assumes "takeSnapshot this = (snap, this')"
    and "getEnergy this' snap = Inr E_new"
    and "getN (m_sysdef this') \<le> length position_old_arg"
    and "getN (m_sysdef this') \<le> length orientation_old_arg"
    and "\<forall>i < getN (m_sysdef this').
           \<exists>k. map_snapshot snap (getTags (m_sysdef this') ! i) = Some k \<and>
               k < length (pos (particle_data snap)) \<and>
               k < length (orientation (particle_data snap))"
    and "getEnergy this'
           (old_configuration vec3 quat (getTags (m_sysdef this'))
              position_old_arg orientation_old_arg box_old_arg snap) = Inr E_old"
  shows "calculateBoltzmannFactor bld vec3 quat this position_old_arg orientation_old_arg
           box_old_arg
           = Inr (exp_Scalar (sub_Scalar E_old E_new), this') \<and>
         (getN (m_sysdef this') = 0 \<longrightarrow>
            old_configuration vec3 quat (getTags (m_sysdef this'))
              position_old_arg orientation_old_arg box_old_arg snap
              = snap\<lparr>global_box := box_old_arg\<rparr>)"
proof
  have u: "update_old_configuration bld vec3 quat this' position_old_arg orientation_old_arg
             box_old_arg snap
           = Inr (old_configuration vec3 quat (getTags (m_sysdef this'))
                    position_old_arg orientation_old_arg box_old_arg snap)"
    using assms(3,4,5) by (intro update_old_configuration_fold) (simp_all add: getN_def)
  show "calculateBoltzmannFactor bld vec3 quat this position_old_arg orientation_old_arg
          box_old_arg
           = Inr (exp_Scalar (sub_Scalar E_old E_new), this')"
    by (simp add: calculateBoltzmannFactor_def assms(1,2,6) u add_neg_Scalar)
  show "getN (m_sysdef this') = 0 \<longrightarrow>
            old_configuration vec3 quat (getTags (m_sysdef this'))
              position_old_arg orientation_old_arg box_old_arg snap
              = snap\<lparr>global_box := box_old_arg\<rparr>"
    by (simp add: getN_def old_configuration_def)
qed

theorem calculateBoltzmannFactor_value_witness:
  "calculateBoltzmannFactor Debug xyz as_quat lattice_field [(0, 0, 0, 0), (0, 0, 0, 0)]
     [(1, 0, 0, 0), (1, 0, 0, 0)] 2
     = Inr (exp_Scalar (sub_Scalar (Finite 16) (Finite 10)), lattice_field) \<and>
   calculateBoltzmannFactor Debug xyz as_quat empty_field [] [] 2
     = Inr (exp_Scalar (sub_Scalar (Finite 20) (Finite 10)), empty_field)"
proof
  have t: "takeSnapshot lattice_field = (small_snapshot, lattice_field)"
    by (rule takeSnapshot_lattice_field)
  have n: "getEnergy lattice_field small_snapshot = Inr (Finite 10)"
    by (simp add: getEnergy_def small_defs)
  have r: "\<forall>i < getN (m_sysdef lattice_field).
           \<exists>k. map_snapshot small_snapshot (getTags (m_sysdef lattice_field) ! i) = Some k \<and>
               k < length (pos (particle_data small_snapshot)) \<and>
               k < length (orientation (particle_data small_snapshot))"
    by (simp add: small_defs less_Suc_eq)
  have o: "getEnergy lattice_field
           (old_configuration xyz as_quat (getTags (m_sysdef lattice_field))
              [(0, 0, 0, 0), (0, 0, 0, 0)] [(1, 0, 0, 0), (1, 0, 0, 0)] 2 small_snapshot)
           = Inr (Finite 16)"
  proof -
    have "getTags (m_sysdef lattice_field) = [7, 3]" by (simp add: small_defs)
    then show ?thesis
      by (simp add: old_configuration_small) (simp add: getEnergy_def small_defs)
  qed
  show "calculateBoltzmannFactor Debug xyz as_quat lattice_field [(0, 0, 0, 0), (0, 0, 0, 0)]
     [(1, 0, 0, 0), (1, 0, 0, 0)] 2
     = Inr (exp_Scalar (sub_Scalar (Finite 16) (Finite 10)), lattice_field)"
    using calculateBoltzmannFactor_value [OF t n _ _ r o, where bld = Debug]
    by (simp add: small_defs)
next
  have t: "takeSnapshot empty_field = (small_snapshot, empty_field)"
    by (simp add: takeSnapshot_def sysdef_takeSnapshot_def empty_field_def)
  have n: "getEnergy empty_field small_snapshot = Inr (Finite 10)"
    by (simp add: getEnergy_def empty_field_def small_defs)
  have z: "getN (m_sysdef empty_field) = 0" by (simp add: getN_def empty_field_def)
  have o: "getEnergy empty_field
           (old_configuration xyz as_quat (getTags (m_sysdef empty_field)) [] [] 2 small_snapshot)
           = Inr (Finite 20)"
    by (simp add: old_configuration_def getEnergy_def empty_field_def small_defs)
  show "calculateBoltzmannFactor Debug xyz as_quat empty_field [] [] 2
     = Inr (exp_Scalar (sub_Scalar (Finite 20) (Finite 10)), empty_field)"
    using calculateBoltzmannFactor_value [OF t n _ _ _ o, where bld = Debug] z by simp
qed



section \<open>Tags that the snapshot does not know\<close>




end
